theory Spec2Isabelle
  imports Main
begin

section \<open>ECMAScript numbers, as far as the claim view reaches them\<close>

text \<open>
  The \<open>quantity\<close> state of \<open>App\<close> (src/src/App.tsx, line 16) is a JavaScript Number, an
  IEEE 754 double.  Every value it can take is produced by the initial \<open>1\<close>, by
  \<open>parseInt\<close>, by \<open>quantity + 1\<close>, by \<open>Math.max(1, quantity - 1)\<close> or by the reset to
  \<open>1\<close>: all of these are integer-valued doubles, \<open>NaN\<close> or an infinity.  The type
  below has exactly these values.  \<open>Fin n\<close> is the double whose value is the integer
  \<open>n\<close>; the operations below round their exact result to the nearest double (53
  significant bits, ties to even), so they only produce \<open>Fin n\<close> for representable
  \<open>n\<close>.  The two zeros of IEEE 754 are one value here: no operation of App.tsx
  (addition and subtraction of 1, product, \<open>Math.max\<close> with 1, \<open>BigInt\<close>) tells them apart.
\<close>

datatype jsnum = NaN | PosInf | NegInf | Fin int

text \<open>
  Number of bits of a magnitude: \<open>bitlen 0 = 0\<close>, \<open>bitlen 5 = 3\<close>.  Magnitudes are
  integers that are not negative.
\<close>

fun bitlen :: "int \<Rightarrow> nat" where
  "bitlen n = (if n \<le> 0 then 0 else Suc (bitlen (n div 2)))"

declare bitlen.simps [simp del]

text \<open>
  Rounding of a magnitude to 53 significant bits, to nearest, ties to the even
  significand: with \<open>e\<close> the number of bits beyond the 53rd, \<open>q\<close> the leading bits and
  \<open>r\<close> the \<open>e\<close> bits dropped.
\<close>

definition round53 :: "int \<Rightarrow> int" where
  "round53 m =
     (let e = bitlen m - 53; q = m div 2 ^ e; r = m mod 2 ^ e
      in if 2 * r < 2 ^ e then q * 2 ^ e
         else if 2 ^ e < 2 * r then (q + 1) * 2 ^ e
         else if even q then q * 2 ^ e
         else (q + 1) * 2 ^ e)"

text \<open>
  The Number value of a mathematical integer (the specification's conversion from
  a real to a Number): the integer rounded as above, and an infinity when the
  rounded magnitude needs more than 1024 bits, that is from \<open>2 ^ 1024\<close> on.
\<close>

definition toNumber :: "int \<Rightarrow> jsnum" where
  "toNumber x =
     (let m = round53 \<bar>x\<bar>
      in if 1024 < bitlen m then (if x < 0 then NegInf else PosInf)
         else Fin (if x < 0 then - m else m))"

text \<open>An integer is a double when the conversion keeps it.\<close>

definition is_double :: "int \<Rightarrow> bool" where
  "is_double x \<longleftrightarrow> toNumber x = Fin x"

text \<open>\<open>a + b\<close>, \<open>a - b\<close> and \<open>a * b\<close> on Numbers.\<close>

fun js_add :: "jsnum \<Rightarrow> jsnum \<Rightarrow> jsnum" where
  "js_add NaN _ = NaN"
| "js_add _ NaN = NaN"
| "js_add PosInf NegInf = NaN"
| "js_add NegInf PosInf = NaN"
| "js_add PosInf _ = PosInf"
| "js_add NegInf _ = NegInf"
| "js_add (Fin a) PosInf = PosInf"
| "js_add (Fin a) NegInf = NegInf"
| "js_add (Fin a) (Fin b) = toNumber (a + b)"

fun js_neg :: "jsnum \<Rightarrow> jsnum" where
  "js_neg NaN = NaN"
| "js_neg PosInf = NegInf"
| "js_neg NegInf = PosInf"
| "js_neg (Fin a) = Fin (- a)"

definition js_sub :: "jsnum \<Rightarrow> jsnum \<Rightarrow> jsnum" where
  "js_sub a b = js_add a (js_neg b)"

text \<open>The sign of a Number other than \<open>NaN\<close>: -1, 0 or 1.\<close>

fun js_sign :: "jsnum \<Rightarrow> int" where
  "js_sign NaN = 0"
| "js_sign PosInf = 1"
| "js_sign NegInf = - 1"
| "js_sign (Fin a) = sgn a"

fun js_mul :: "jsnum \<Rightarrow> jsnum \<Rightarrow> jsnum" where
  "js_mul NaN _ = NaN"
| "js_mul _ NaN = NaN"
| "js_mul (Fin a) (Fin b) = toNumber (a * b)"
| "js_mul x y =
     (if js_sign x * js_sign y = 0 then NaN
      else if 0 < js_sign x * js_sign y then PosInf else NegInf)"

text \<open>\<open>Math.max(a, b)\<close>: \<open>NaN\<close> when an argument is \<open>NaN\<close>, the larger one otherwise.\<close>

fun Math_max :: "jsnum \<Rightarrow> jsnum \<Rightarrow> jsnum" where
  "Math_max NaN _ = NaN"
| "Math_max _ NaN = NaN"
| "Math_max PosInf _ = PosInf"
| "Math_max _ PosInf = PosInf"
| "Math_max NegInf y = y"
| "Math_max x NegInf = x"
| "Math_max (Fin a) (Fin b) = Fin (max a b)"

text \<open>
  Errors a handler of the view can meet: the \<open>RangeError\<close> of \<open>BigInt\<close>, and whatever
  the transaction primitive reports, carried as its message.
\<close>

datatype js_error = RangeError | SdkError string

text \<open>
  \<open>BigInt(n)\<close> for a Number \<open>n\<close>: the exact integer, and a \<open>RangeError\<close> when \<open>n\<close> is not
  an integer (\<open>NaN\<close> and the infinities, among the values of \<open>jsnum\<close>).
\<close>

fun BigInt :: "jsnum \<Rightarrow> js_error + int" where
  "BigInt (Fin n) = Inr n"
| "BigInt _ = Inl RangeError"

section \<open>Strings: \<open>parseInt\<close>, the text of a bigint, and the base-currency text\<close>

text \<open>
  Strings are lists of code units; the model covers code units below 256.  The decimal
  text of a magnitude, most significant digit first (\<open>0\<close> is \<open>''0''\<close>); \<open>digits_of\<close> is
  only applied to integers that are not negative.
\<close>

definition digit_char :: "int \<Rightarrow> char" where
  "digit_char d = char_of (48 + d)"

fun digits_of :: "int \<Rightarrow> string" where
  "digits_of n =
     (if n < 10 then [digit_char n] else digits_of (n div 10) @ [digit_char (n mod 10)])"

declare digits_of.simps [simp del]

text \<open>\<open>x.toString()\<close> for a bigint \<open>x\<close>.\<close>

definition bigint_toString :: "int \<Rightarrow> string" where
  "bigint_toString x =
     (if x < 0 then CHR ''-'' # digits_of (- x) else digits_of x)"

text \<open>
  White space as \<open>parseInt\<close> trims it, among the code units below 256: tab, line feed,
  vertical tab, form feed, carriage return, space and no-break space.
\<close>

definition is_white :: "char \<Rightarrow> bool" where
  "is_white c \<longleftrightarrow> of_char c \<in> {9, 10, 11, 12, 13, 32, 160 :: nat}"

text \<open>The value of a digit, letters counting from 10 in either case.\<close>

definition digit_value :: "char \<Rightarrow> nat option" where
  "digit_value c =
     (let k = of_char c :: nat
      in if 48 \<le> k \<and> k \<le> 57 then Some (k - 48)
         else if 97 \<le> k \<and> k \<le> 122 then Some (k - 87)
         else if 65 \<le> k \<and> k \<le> 90 then Some (k - 55)
         else None)"

definition is_radix_digit :: "nat \<Rightarrow> char \<Rightarrow> bool" where
  "is_radix_digit R c = (case digit_value c of None \<Rightarrow> False | Some d \<Rightarrow> d < R)"

text \<open>The integer that a string of digits of radix \<open>R\<close> spells.\<close>

definition radix_value :: "nat \<Rightarrow> string \<Rightarrow> int" where
  "radix_value R Z =
     foldl (\<lambda>acc c. acc * int R + (case digit_value c of None \<Rightarrow> 0 | Some d \<Rightarrow> int d)) 0 Z"

text \<open>
  \<open>parseInt(string)\<close> with no radix argument, step by step as ECMA-262 gives it: trim
  leading white space; take a sign; with a \<open>0x\<close> or \<open>0X\<close> prefix the radix is 16,
  otherwise 10; keep the longest prefix of digits of that radix; no digit gives
  \<open>NaN\<close>, otherwise the Number value of the signed integer the digits spell.
  (An implementation may replace decimal digits after the 20th by zeros before
  converting; the model converts the exact integer.)
\<close>

definition parseInt :: "string \<Rightarrow> jsnum" where
  "parseInt inputString =
     (let S = dropWhile is_white inputString;
          sign = (if take 1 S = ''-'' then - 1 else 1 :: int);
          S1 = (if take 1 S = ''+'' \<or> take 1 S = ''-'' then drop 1 S else S);
          hex = (take 2 S1 = ''0x'' \<or> take 2 S1 = ''0X'');
          R = (if hex then 16 else 10);
          S2 = (if hex then drop 2 S1 else S1);
          Z = takeWhile (is_radix_digit R) S2
      in if Z = [] then NaN else toNumber (sign * radix_value R Z))"

text \<open>
  Two string operations: \<open>s.padStart(n, c)\<close> for a one-character \<open>c\<close>, and the removal
  of trailing zeros.
\<close>

definition padStart :: "nat \<Rightarrow> char \<Rightarrow> string \<Rightarrow> string" where
  "padStart n c s = replicate (n - length s) c @ s"

definition trim_zeros :: "string \<Rightarrow> string" where
  "trim_zeros s = rev (dropWhile (\<lambda>c. c = CHR ''0'') (rev s))"

text \<open>
  Modelled from the spec: \<open>toEther\<close> is imported from the thirdweb package, whose code
  is not among the sources.  The spec describes it as the conversion of an amount
  in the smallest currency unit "to the human-readable base-currency decimal
  representation", one unit being \<open>10 ^ 18\<close> smallest units and three units being
  displayed as "3": a minus sign for a negative amount, the whole part in decimal,
  then, when the amount is not a whole number of units, a point and the 18
  fraction digits without their trailing zeros.
\<close>

definition toEther :: "int \<Rightarrow> string" where
  "toEther wei =
     (let a = \<bar>wei\<bar>;
          whole = digits_of (a div 10 ^ 18);
          fraction = trim_zeros (padStart 18 (CHR ''0'') (digits_of (a mod 10 ^ 18)))
      in (if wei < 0 then ''-'' else []) @ whole @
         (if fraction = [] then [] else CHR ''.'' # fraction))"

section \<open>The claim view: state and handlers of \<open>App\<close>\<close>

text \<open>
  What \<open>App\<close> reads and writes.  \<open>quantity\<close> is the \<open>useState\<close> cell; \<open>account\<close>,
  \<open>claimCondition\<close>, \<open>claimedSupply\<close> and \<open>totalNftSupply\<close> are the results of the hooks,
  absent (\<open>None\<close>) while not loaded or not connected.  Of the claim condition only
  \<open>pricePerToken\<close> is read, through \<open>?.\<close>, so it may be absent too.  The one effect of
  the handlers besides the state is kept as a log: the arguments of the \<open>alert\<close> calls,
  oldest first.
\<close>

record account_t =
  address :: string

record claim_condition =
  pricePerToken :: "int option"

datatype alert_arg = Message string | Thrown js_error

text \<open>
  The parameter object of \<open>claimTo\<close>.  The contract handle is given by its address;
  the \<open>quantity\<close> field is \<open>tx_quantity\<close> here, \<open>quantity\<close> being the state cell.
\<close>

record claimTo_params =
  contract :: string
  to :: string
  tx_quantity :: int

text \<open>The address of the drop contract (line 21).\<close>

definition contract_address :: string where
  "contract_address = ''0xb2Eae29A640669Ab4f19B31e5bCB60310CaC3133''"

record view =
  quantity :: jsnum
  account :: "account_t option"
  claimCondition :: "claim_condition option"
  claimedSupply :: "int option"
  totalNftSupply :: "int option"
  alerts :: "alert_arg list"

definition setQuantity :: "jsnum \<Rightarrow> view \<Rightarrow> view" where
  "setQuantity q v = v\<lparr>quantity := q\<rparr>"

definition alert :: "alert_arg \<Rightarrow> view \<Rightarrow> view" where
  "alert a v = v\<lparr>alerts := alerts v @ [a]\<rparr>"

text \<open>\<open>claimCondition?.pricePerToken?.toString() || "0"\<close> (line 30).\<close>

definition price_text :: "claim_condition option \<Rightarrow> string" where
  "price_text cc =
     (case cc of
        None \<Rightarrow> ''0''
      | Some c \<Rightarrow>
          (case pricePerToken c of
             None \<Rightarrow> ''0''
           | Some p \<Rightarrow> (let s = bigint_toString p in if s = [] then ''0'' else s)))"

text \<open>\<open>getPrice\<close> (lines 29 to 32), a closure over \<open>claimCondition\<close>.\<close>

definition getPrice :: "claim_condition option \<Rightarrow> jsnum \<Rightarrow> js_error + string" where
  "getPrice cc q =
     (let total = js_mul q (parseInt (price_text cc))
      in case BigInt total of Inl e \<Rightarrow> Inl e | Inr n \<Rightarrow> Inr (toEther n))"

text \<open>The three quantity controls (lines 78, 83 and 88).\<close>

definition decrement_onClick :: "view \<Rightarrow> view" where
  "decrement_onClick v = setQuantity (Math_max (Fin 1) (js_sub (quantity v) (Fin 1))) v"

definition input_onChange :: "string \<Rightarrow> view \<Rightarrow> view" where
  "input_onChange target_value v = setQuantity (parseInt target_value) v"

definition increment_onClick :: "view \<Rightarrow> view" where
  "increment_onClick v = setQuantity (js_add (quantity v) (Fin 1)) v"

text \<open>
  The \<open>transaction\<close> property of the button (lines 93 to 97), the function that
  the button calls once per press to obtain the transaction it sends:
  \<open>account?.address || ""\<close> is the address, and the empty string when there is no
  account or the address is empty; \<open>BigInt(quantity)\<close> may throw, and then there is
  no transaction.
\<close>

definition recipient :: "account_t option \<Rightarrow> string" where
  "recipient acc =
     (case acc of None \<Rightarrow> [] | Some a \<Rightarrow> if address a = [] then [] else address a)"

definition transaction :: "view \<Rightarrow> js_error + claimTo_params" where
  "transaction v =
     (case BigInt (quantity v) of
        Inl e \<Rightarrow> Inl e
      | Inr n \<Rightarrow>
          Inr \<lparr>contract = contract_address, to = recipient (account v), tx_quantity = n\<rparr>)"

text \<open>The two callbacks of the button (lines 98 to 104).\<close>

definition onTransactionConfirmed :: "view \<Rightarrow> view" where
  "onTransactionConfirmed v = setQuantity (Fin 1) (alert (Message ''NFT Claimed!'') v)"

definition onError :: "js_error \<Rightarrow> view \<Rightarrow> view" where
  "onError e v = alert (Thrown e) v"

text \<open>
  The label of the button (line 106), the template literal
  \<open>`Claim NFT (${getPrice(quantity)} ETH)`\<close>.  It is evaluated while \<open>App\<close> renders,
  in the expression that builds the button with its \<open>transaction\<close> function and its
  callbacks: when \<open>getPrice\<close> throws, the render throws and the view has no claim
  button.
\<close>

definition claim_button_label :: "view \<Rightarrow> js_error + string" where
  "claim_button_label v =
     (case getPrice (claimCondition v) (quantity v) of
        Inl e \<Rightarrow> Inl e
      | Inr price \<Rightarrow> Inr (''Claim NFT ('' @ price @ '' ETH)''))"

text \<open>
  The view at the first render: \<open>useState(1)\<close>, no account connected, no hook has
  answered, nothing alerted.
\<close>

definition initial_view :: view where
  "initial_view =
     \<lparr>quantity = Fin 1, account = None, claimCondition = None, claimedSupply = None,
      totalNftSupply = None, alerts = []\<rparr>"

section \<open>Exactness of Number arithmetic up to \<open>2 ^ 53\<close>\<close>

lemma bitlen_le: "n < 2 ^ k \<Longrightarrow> bitlen n \<le> k"
proof (induction n arbitrary: k rule: bitlen.induct)
  case (1 n)
  show ?case
  proof (cases "n \<le> 0")
    case True
    then show ?thesis by (simp add: bitlen.simps)
  next
    case False
    with "1.prems" obtain j where k: "k = Suc j" by (cases k) auto
    from "1.prems" k have "n div 2 < 2 ^ j" by simp
    with "1.IH" False have "bitlen (n div 2) \<le> j" by simp
    with False k show ?thesis by (simp add: bitlen.simps)
  qed
qed

lemma round53_small:
  assumes "0 \<le> m" and "m < 2 ^ 53"
  shows "round53 m = m"
proof -
  from assms(2) have "bitlen m \<le> 53" by (rule bitlen_le)
  then have "bitlen m - 53 = 0" by simp
  then show ?thesis by (simp add: round53_def)
qed

lemma round53_nonneg: "0 \<le> m \<Longrightarrow> 0 \<le> round53 m"
  by (simp add: round53_def Let_def pos_imp_zdiv_nonneg_iff)

lemma toNumber_pow53:
  "toNumber (2 ^ 53) = Fin (2 ^ 53)" "toNumber (- (2 ^ 53)) = Fin (- (2 ^ 53))"
  by code_simp+

text \<open>Every integer of magnitude at most \<open>2 ^ 53\<close> is a double.\<close>

lemma toNumber_exact: "\<bar>x\<bar> \<le> 2 ^ 53 \<Longrightarrow> toNumber x = Fin x"
proof -
  assume a: "\<bar>x\<bar> \<le> 2 ^ 53"
  show ?thesis
  proof (cases "\<bar>x\<bar> = 2 ^ 53")
    case True
    then have "x = 2 ^ 53 \<or> x = - (2 ^ 53)" by linarith
    then show ?thesis using toNumber_pow53 by auto
  next
    case False
    with a have lt: "\<bar>x\<bar> < 2 ^ 53" by simp
    then have r: "round53 \<bar>x\<bar> = \<bar>x\<bar>" by (simp add: round53_small)
    from lt have "bitlen \<bar>x\<bar> \<le> 53" by (rule bitlen_le)
    with r show ?thesis by (simp add: toNumber_def Let_def)
  qed
qed

lemma is_double_small: "\<bar>x\<bar> \<le> 2 ^ 53 \<Longrightarrow> is_double x"
  by (simp add: is_double_def toNumber_exact)

text \<open>
  More generally, an integer with at most 53 significant bits is a double, as long
  as it is below \<open>2 ^ 1024\<close>: rounding does not change it.
\<close>

lemma round53_significand:
  assumes "0 \<le> m" and "m < 2 ^ 53"
  shows "round53 (m * 2 ^ e) = m * 2 ^ e"
proof -
  let ?x = "m * 2 ^ e"
  let ?E = "bitlen ?x - 53"
  from assms have "?x < 2 ^ 53 * 2 ^ e" by simp
  then have "?x < 2 ^ (53 + e)" by (simp add: power_add)
  then have "bitlen ?x \<le> 53 + e" by (rule bitlen_le)
  then have "?E \<le> e" by simp
  then have "(2::int) ^ ?E dvd 2 ^ e" by (rule le_imp_power_dvd)
  then have d: "(2::int) ^ ?E dvd ?x" by (rule dvd_mult)
  then have "?x mod 2 ^ ?E = 0" "?x div 2 ^ ?E * 2 ^ ?E = ?x" by simp_all
  then show ?thesis by (simp add: round53_def Let_def)
qed

lemma is_double_significand:
  assumes "0 \<le> m" and "m < 2 ^ 53" and "m * 2 ^ e < 2 ^ 1024"
  shows "is_double (m * 2 ^ e)" and "is_double (- (m * 2 ^ e))"
proof -
  have r: "round53 (m * 2 ^ e) = m * 2 ^ e" using assms(1,2) by (rule round53_significand)
  have b: "bitlen (m * 2 ^ e) \<le> 1024" using assms(3) by (rule bitlen_le)
  have nn: "0 \<le> m * 2 ^ e" using assms(1) by simp
  from r b nn show "is_double (m * 2 ^ e)"
    by (simp add: is_double_def toNumber_def Let_def)
  from r b nn show "is_double (- (m * 2 ^ e))"
    by (simp add: is_double_def toNumber_def Let_def)
qed

text \<open>
  The rounding is to a nearest double.  Its result differs from the integer by at
  most half a unit of the last of the 53 places, it is itself unchanged by
  rounding, and so every finite Number that a conversion yields is a double.
\<close>

lemma bitlen_gt: "0 \<le> n \<Longrightarrow> n < 2 ^ bitlen n"
proof (induction n rule: bitlen.induct)
  case (1 n)
  show ?case
  proof (cases "n \<le> 0")
    case True
    with "1.prems" show ?thesis by (simp add: bitlen.simps)
  next
    case False
    then have "n div 2 < 2 ^ bitlen (n div 2)" by (intro "1.IH") simp_all
    then have "n < 2 * 2 ^ bitlen (n div 2)" by linarith
    with False show ?thesis by (simp add: bitlen.simps [of n])
  qed
qed

lemma round53_half_unit:
  "2 * \<bar>round53 a - a\<bar> \<le> 2 ^ (bitlen a - 53)"
proof -
  define P :: int where "P = 2 ^ (bitlen a - 53)"
  define q where "q = a div P"
  define r where "r = a mod P"
  have P: "0 < P" by (simp add: P_def)
  have a: "a = q * P + r" by (simp add: q_def r_def)
  have r: "0 \<le> r" "r < P" using P by (simp_all add: r_def)
  have up: "(q + 1) * P = q * P + P" by (simp add: distrib_right)
  have def: "round53 a =
      (if 2 * r < P then q * P else if P < 2 * r then q * P + P
       else if even q then q * P else q * P + P)"
    by (simp add: round53_def Let_def P_def q_def r_def up [unfolded P_def q_def])
  show ?thesis
    unfolding P_def [symmetric] def using a r by (simp split: if_splits)
qed

lemma round53_idem:
  assumes "0 \<le> a"
  shows "round53 (round53 a) = round53 a"
proof -
  define E where "E = bitlen a - 53"
  define q where "q = a div 2 ^ E"
  define B :: int where "B = 2 ^ 53"
  have q0: "0 \<le> q" using assms by (simp add: q_def pos_imp_zdiv_nonneg_iff)
  have "a < 2 ^ bitlen a" using assms by (rule bitlen_gt)
  also have "(2::int) ^ bitlen a \<le> 2 ^ (53 + E)"
    unfolding E_def by (intro power_increasing) simp_all
  finally have lt: "a < B * 2 ^ E" by (simp only: power_add B_def)
  have le: "q * 2 ^ E \<le> a"
  proof -
    have "0 \<le> a mod 2 ^ E" by simp
    with div_mult_mod_eq [of a "2 ^ E"] show ?thesis unfolding q_def by linarith
  qed
  from le lt have "q * 2 ^ E < B * 2 ^ E" by (rule le_less_trans)
  then have q1: "q < B" by (rule mult_right_less_imp_less) simp
  have cases: "round53 a = q * 2 ^ E \<or> round53 a = (q + 1) * 2 ^ E"
    by (simp add: round53_def Let_def E_def q_def)
  show ?thesis
  proof (cases "round53 a = q * 2 ^ E")
    case True
    have "round53 (q * 2 ^ E) = q * 2 ^ E"
      using q0 q1 unfolding B_def by (rule round53_significand)
    with True show ?thesis by (simp only:)
  next
    case False
    with cases have r: "round53 a = (q + 1) * 2 ^ E" by blast
    show ?thesis
    proof (cases "q + 1 < B")
      case True
      from q0 have "0 \<le> q + 1" by linarith
      then have "round53 ((q + 1) * 2 ^ E) = (q + 1) * 2 ^ E"
        using True unfolding B_def by (rule round53_significand)
      with r show ?thesis by (simp only:)
    next
      case False
      with q1 have "q + 1 = B" by linarith
      then have "(q + 1) * 2 ^ E = 2 ^ 52 * 2 ^ Suc E" by (simp add: B_def)
      with r have r': "round53 a = 2 ^ 52 * 2 ^ Suc E" by (simp only:)
      have "round53 (2 ^ 52 * 2 ^ Suc E) = 2 ^ 52 * 2 ^ Suc E"
        by (rule round53_significand) simp_all
      with r' show ?thesis by (simp only:)
    qed
  qed
qed

lemma toNumber_is_double:
  assumes "toNumber x = Fin y"
  shows "is_double y"
proof -
  define m where "m = round53 \<bar>x\<bar>"
  have m0: "0 \<le> m" unfolding m_def by (rule round53_nonneg) simp
  from assms have b: "bitlen m \<le> 1024" and y: "y = (if x < 0 then - m else m)"
    by (auto simp: toNumber_def Let_def m_def split: if_splits)
  from m0 y have abs: "\<bar>y\<bar> = m" by (simp split: if_splits)
  have idem: "round53 m = m" unfolding m_def by (rule round53_idem) simp
  have "toNumber y = Fin (if y < 0 then - m else m)"
    using b by (simp add: toNumber_def Let_def abs idem)
  also have "(if y < 0 then - m else m) = y" using abs by (auto simp: abs_if split: if_splits)
  finally show ?thesis by (simp add: is_double_def)
qed

text \<open>Rounding keeps the sign: what is not positive stays so.\<close>

lemma toNumber_neg: "x \<le> 0 \<Longrightarrow> toNumber x = NegInf \<or> (\<exists>y\<le>0. toNumber x = Fin y)"
  using round53_nonneg [of "\<bar>x\<bar>"] toNumber_exact [of 0]
  by (cases "x = 0") (auto simp: toNumber_def Let_def)

section \<open>The quantity stepper\<close>

lemma increment_exact:
  "quantity v = Fin q \<Longrightarrow> \<bar>q + 1\<bar> \<le> 2 ^ 53 \<Longrightarrow>
     increment_onClick v = v\<lparr>quantity := Fin (q + 1)\<rparr>"
  by (simp add: increment_onClick_def setQuantity_def toNumber_exact)

lemma decrement_exact:
  "quantity v = Fin q \<Longrightarrow> \<bar>q - 1\<bar> \<le> 2 ^ 53 \<Longrightarrow>
     decrement_onClick v = v\<lparr>quantity := Fin (max 1 (q - 1))\<rparr>"
  by (simp add: decrement_onClick_def setQuantity_def js_sub_def toNumber_exact)

lemma decrement_low:
  assumes "quantity v = Fin q" and "q \<le> 1"
  shows "decrement_onClick v = v\<lparr>quantity := Fin 1\<rparr>"
proof -
  from assms(2) have "q - 1 \<le> 0" by simp
  then have "toNumber (q - 1) = NegInf \<or> (\<exists>y\<le>0. toNumber (q - 1) = Fin y)"
    by (rule toNumber_neg)
  then have "Math_max (Fin 1) (toNumber (q - 1)) = Fin 1" by auto
  with assms(1) show ?thesis
    by (simp add: decrement_onClick_def setQuantity_def js_sub_def)
qed

lemma increment_iterated:
  "quantity v = Fin a \<Longrightarrow> - (2 ^ 53) \<le> a \<Longrightarrow> a + int n \<le> 2 ^ 53 \<Longrightarrow>
     (increment_onClick ^^ n) v = v\<lparr>quantity := Fin (a + int n)\<rparr>"
proof (induction n)
  case 0
  then show ?case by simp
next
  case (Suc n)
  then have "(increment_onClick ^^ n) v = v\<lparr>quantity := Fin (a + int n)\<rparr>" by simp
  moreover have "\<bar>a + int n + 1\<bar> \<le> 2 ^ 53" using Suc.prems by simp
  ultimately show ?case
    using increment_exact [of "v\<lparr>quantity := Fin (a + int n)\<rparr>" "a + int n"]
    by (simp add: add.assoc)
qed

text \<open>
  Claim C4, as amended.  For every integer quantity \<open>q\<close> up to \<open>2 ^ 53\<close>, pressing the
  decrement control sets the quantity to \<open>max 1 (q - 1)\<close> and changes nothing else:
  from 1 it stays 1, from 5 it becomes 4.  (Below \<open>- (2 ^ 53)\<close> the difference
  \<open>q - 1\<close> is rounded, but it stays negative and the clamp gives 1.)
\<close>

theorem decrement_clamps_in_exact_range:
  assumes "quantity v = Fin q" and "q \<le> 2 ^ 53"
  shows "decrement_onClick v = v\<lparr>quantity := Fin (max 1 (q - 1))\<rparr>"
proof (cases "q \<le> 1")
  case True
  with assms(1) show ?thesis by (simp add: decrement_low)
next
  case False
  with assms(2) have "\<bar>q - 1\<bar> \<le> 2 ^ 53" by simp
  with assms(1) show ?thesis by (rule decrement_exact)
qed

theorem decrement_clamps_in_exact_range_witness:
  "quantity initial_view = Fin 1 \<and> (1::int) \<le> 2 ^ 53 \<and>
   decrement_onClick initial_view = initial_view\<lparr>quantity := Fin 1\<rparr> \<and>
   quantity (initial_view\<lparr>quantity := Fin 5\<rparr>) = Fin 5 \<and> (5::int) \<le> 2 ^ 53 \<and>
   decrement_onClick (initial_view\<lparr>quantity := Fin 5\<rparr>) = initial_view\<lparr>quantity := Fin 4\<rparr>"
  using decrement_clamps_in_exact_range [of initial_view 1]
    decrement_clamps_in_exact_range [of "initial_view\<lparr>quantity := Fin 5\<rparr>" 5]
  by (simp add: initial_view_def)

text \<open>
  Claim C4 as stated fails at two quantities that the manual input reaches.  After
  the input is cleared the quantity is \<open>NaN\<close>, and the decrement leaves \<open>NaN\<close>, which
  is not clamped to 1.  After \<open>9007199254740994\<close> (\<open>2 ^ 53 + 2\<close>) is typed, the
  decrement gives \<open>9007199254740992\<close>, not \<open>9007199254740993\<close>: the difference is
  not a double and is rounded.
\<close>

theorem decrement_counterexample:
  "quantity (decrement_onClick (input_onChange [] initial_view)) = NaN \<and>
   quantity (input_onChange ''9007199254740994'' initial_view) = Fin 9007199254740994 \<and>
   quantity (decrement_onClick (input_onChange ''9007199254740994'' initial_view))
     = Fin 9007199254740992 \<and>
   Fin 9007199254740992 \<noteq> Fin (max 1 (9007199254740994 - 1))"
  by code_simp

text \<open>
  Claim C5, as amended.  For every integer quantity \<open>q\<close> with \<open>\<bar>q + 1\<bar> \<le> 2 ^ 53\<close>,
  pressing the increment control sets the quantity to \<open>q + 1\<close> and changes nothing
  else; for every \<open>n < 2 ^ 53\<close>, \<open>n\<close> increments from 1 give \<open>1 + n\<close>.  No supply
  counter is consulted: with \<open>t\<close> tokens in total and \<open>c\<close> claimed, \<open>t - c\<close>
  increments from 1 give \<open>t - c + 1\<close>, one more than what remains.
\<close>

theorem increment_adds_one_in_exact_range:
  "(quantity v = Fin q \<and> \<bar>q + 1\<bar> \<le> 2 ^ 53 \<longrightarrow>
      increment_onClick v = v\<lparr>quantity := Fin (q + 1)\<rparr>) \<and>
   (quantity v = Fin 1 \<and> int n < 2 ^ 53 \<longrightarrow>
      (increment_onClick ^^ n) v = v\<lparr>quantity := Fin (1 + int n)\<rparr>) \<and>
   (quantity v = Fin 1 \<and> totalNftSupply v = Some t \<and> claimedSupply v = Some c \<and>
    0 \<le> t - c \<and> t - c < 2 ^ 53 - 1 \<longrightarrow>
      quantity ((increment_onClick ^^ nat (t - c)) v) = Fin (t - c + 1))"
proof (intro conjI impI)
  assume "quantity v = Fin q \<and> \<bar>q + 1\<bar> \<le> 2 ^ 53"
  then show "increment_onClick v = v\<lparr>quantity := Fin (q + 1)\<rparr>"
    by (simp add: increment_exact)
next
  assume "quantity v = Fin 1 \<and> int n < 2 ^ 53"
  then show "(increment_onClick ^^ n) v = v\<lparr>quantity := Fin (1 + int n)\<rparr>"
    using increment_iterated [of v 1 n] by simp
next
  assume a: "quantity v = Fin 1 \<and> totalNftSupply v = Some t \<and> claimedSupply v = Some c \<and>
    0 \<le> t - c \<and> t - c < 2 ^ 53 - 1"
  then have "(increment_onClick ^^ nat (t - c)) v
      = v\<lparr>quantity := Fin (1 + int (nat (t - c)))\<rparr>"
    using increment_iterated [of v 1 "nat (t - c)"] by simp
  with a show "quantity ((increment_onClick ^^ nat (t - c)) v) = Fin (t - c + 1)"
    by simp
qed

theorem increment_adds_one_in_exact_range_witness:
  "quantity initial_view = Fin 1 \<and> \<bar>(1::int) + 1\<bar> \<le> 2 ^ 53 \<and> int 3 < 2 ^ 53 \<and>
   increment_onClick initial_view = initial_view\<lparr>quantity := Fin 2\<rparr> \<and>
   (increment_onClick ^^ 3) initial_view = initial_view\<lparr>quantity := Fin 4\<rparr> \<and>
   quantity ((increment_onClick ^^ nat (10 - 8))
     (initial_view\<lparr>totalNftSupply := Some 10, claimedSupply := Some 8\<rparr>)) = Fin 3"
  using increment_adds_one_in_exact_range [of initial_view 1 3 0 0]
    increment_adds_one_in_exact_range
      [of "initial_view\<lparr>totalNftSupply := Some 10, claimedSupply := Some 8\<rparr>" 1 0 10 8]
  by (simp add: initial_view_def)

lemma increment_at_2_53: "toNumber (2 ^ 53 + 1) = Fin (2 ^ 53)"
  by code_simp

text \<open>
  Claim C5 as stated fails at \<open>2 ^ 53\<close>: there the increment leaves the quantity at
  \<open>9007199254740992\<close>, since \<open>9007199254740993\<close> is not a double and the sum is
  rounded back.  The manual input reaches that quantity, and so do
  \<open>9007199254740991\<close> increments from 1; one increment more still gives
  \<open>9007199254740992\<close>, not \<open>1 + 9007199254740992\<close>.
\<close>

theorem increment_counterexample:
  "quantity (input_onChange ''9007199254740992'' initial_view) = Fin 9007199254740992 \<and>
   quantity (increment_onClick (input_onChange ''9007199254740992'' initial_view))
     = Fin 9007199254740992 \<and>
   quantity ((increment_onClick ^^ 9007199254740992) initial_view) = Fin 9007199254740992 \<and>
   Fin 9007199254740992 \<noteq> Fin (1 + 9007199254740992)"
proof -
  have a: "quantity (input_onChange ''9007199254740992'' initial_view) = Fin 9007199254740992 \<and>
    quantity (increment_onClick (input_onChange ''9007199254740992'' initial_view))
      = Fin 9007199254740992"
    by code_simp
  have k: "(increment_onClick ^^ 9007199254740991) initial_view
      = initial_view\<lparr>quantity := Fin (1 + int 9007199254740991)\<rparr>"
    by (rule increment_iterated) (simp_all add: initial_view_def)
  have n: "Suc 9007199254740991 = 9007199254740992" by simp
  have "(increment_onClick ^^ Suc 9007199254740991) initial_view
      = increment_onClick ((increment_onClick ^^ 9007199254740991) initial_view)"
    by (simp only: funpow.simps o_apply)
  then have "(increment_onClick ^^ 9007199254740992) initial_view
      = increment_onClick (initial_view\<lparr>quantity := Fin (1 + int 9007199254740991)\<rparr>)"
    by (simp only: n k)
  then have "quantity ((increment_onClick ^^ 9007199254740992) initial_view) = Fin (2 ^ 53)"
    using increment_at_2_53 by (simp add: increment_onClick_def setQuantity_def)
  with a show ?thesis by simp
qed

text \<open>
  Claim C9, as amended.  For every integer quantity \<open>q\<close> with \<open>1 \<le> q < 2 ^ 53\<close>,
  an increment followed by a decrement gives the view back; for every \<open>q\<close> with
  \<open>2 \<le> q \<le> 2 ^ 53\<close>, a decrement followed by an increment gives it back.
\<close>

theorem stepper_inverse_in_exact_range:
  "(quantity v = Fin q \<and> 1 \<le> q \<and> q < 2 ^ 53 \<longrightarrow>
      decrement_onClick (increment_onClick v) = v) \<and>
   (quantity v = Fin q \<and> 2 \<le> q \<and> q \<le> 2 ^ 53 \<longrightarrow>
      increment_onClick (decrement_onClick v) = v)"
proof (intro conjI impI)
  assume a: "quantity v = Fin q \<and> 1 \<le> q \<and> q < 2 ^ 53"
  then have "increment_onClick v = v\<lparr>quantity := Fin (q + 1)\<rparr>"
    by (simp add: increment_exact)
  moreover have "decrement_onClick (v\<lparr>quantity := Fin (q + 1)\<rparr>)
      = v\<lparr>quantity := Fin (q + 1)\<rparr>\<lparr>quantity := Fin (max 1 (q + 1 - 1))\<rparr>"
    using a by (intro decrement_exact) simp_all
  ultimately show "decrement_onClick (increment_onClick v) = v"
    using a by simp
next
  assume a: "quantity v = Fin q \<and> 2 \<le> q \<and> q \<le> 2 ^ 53"
  then have "decrement_onClick v = v\<lparr>quantity := Fin (max 1 (q - 1))\<rparr>"
    by (simp add: decrement_exact)
  with a have "decrement_onClick v = v\<lparr>quantity := Fin (q - 1)\<rparr>" by simp
  moreover have "increment_onClick (v\<lparr>quantity := Fin (q - 1)\<rparr>)
      = v\<lparr>quantity := Fin (q - 1)\<rparr>\<lparr>quantity := Fin (q - 1 + 1)\<rparr>"
    using a by (intro increment_exact) simp_all
  ultimately show "increment_onClick (decrement_onClick v) = v"
    using a by simp
qed

theorem stepper_inverse_in_exact_range_witness:
  "quantity initial_view = Fin 1 \<and> (1::int) \<le> 1 \<and> (1::int) < 2 ^ 53 \<and>
   decrement_onClick (increment_onClick initial_view) = initial_view \<and>
   quantity (initial_view\<lparr>quantity := Fin 2\<rparr>) = Fin 2 \<and> (2::int) \<le> 2 \<and> (2::int) \<le> 2 ^ 53 \<and>
   increment_onClick (decrement_onClick (initial_view\<lparr>quantity := Fin 2\<rparr>))
     = initial_view\<lparr>quantity := Fin 2\<rparr>"
  using stepper_inverse_in_exact_range [of initial_view 1]
    stepper_inverse_in_exact_range [of "initial_view\<lparr>quantity := Fin 2\<rparr>" 2]
  by (simp add: initial_view_def)

text \<open>
  Claim C9 as stated fails from \<open>2 ^ 53\<close> on.  At \<open>9007199254740992\<close> the increment
  changes nothing and the decrement then gives \<open>9007199254740991\<close>; at
  \<open>9007199254740994\<close> the decrement gives \<open>9007199254740992\<close> and the increment
  then changes nothing.
\<close>

theorem stepper_inverse_counterexample:
  "quantity (input_onChange ''9007199254740992'' initial_view) = Fin 9007199254740992 \<and>
   quantity (decrement_onClick (increment_onClick
       (input_onChange ''9007199254740992'' initial_view))) = Fin 9007199254740991 \<and>
   quantity (input_onChange ''9007199254740994'' initial_view) = Fin 9007199254740994 \<and>
   quantity (increment_onClick (decrement_onClick
       (input_onChange ''9007199254740994'' initial_view))) = Fin 9007199254740992"
  by code_simp

section \<open>The claim action and its callbacks\<close>

text \<open>
  The button exists only in a view that renders, and a view renders only with an
  integer quantity: \<open>getPrice\<close> returns a price for no other.  So wherever
  \<open>BigInt(quantity)\<close> would throw in \<open>transaction\<close>, the label has thrown already and
  there is no button to press.
\<close>

lemma js_mul_finite:
  assumes "js_mul x y = Fin t"
  shows "\<exists>n. x = Fin n"
  using assms by (cases x; cases y) (simp_all split: if_splits)

lemma getPrice_returns_on_integer:
  assumes "getPrice cc q = Inr price"
  shows "\<exists>n. q = Fin n"
proof -
  from assms obtain t where "js_mul q (parseInt (price_text cc)) = Fin t"
    by (cases "js_mul q (parseInt (price_text cc))") (simp_all add: getPrice_def)
  then show ?thesis by (rule js_mul_finite)
qed

lemma transaction_integer:
  assumes "quantity v = Fin n"
  shows "transaction v =
     Inr \<lparr>contract = contract_address,
          to = (case account v of None \<Rightarrow> [] | Some a \<Rightarrow> address a),
          tx_quantity = n\<rparr>"
  using assms by (simp add: transaction_def recipient_def split: option.splits)

lemma BigInt_error: "BigInt x = Inl e \<Longrightarrow> e = RangeError"
  by (cases x) simp_all

lemma getPrice_error: "getPrice cc q = Inl e \<Longrightarrow> e = RangeError"
  by (auto simp: getPrice_def Let_def split: sum.splits dest: BigInt_error)

lemma transaction_throws_unrendered:
  assumes "transaction v = Inl e"
  shows "claim_button_label v = Inl RangeError"
proof (cases "getPrice (claimCondition v) (quantity v)")
  case (Inl e')
  then have "e' = RangeError" by (rule getPrice_error)
  with Inl show ?thesis by (simp add: claim_button_label_def)
next
  case (Inr price)
  then obtain n where "quantity v = Fin n"
    using getPrice_returns_on_integer by blast
  with assms show ?thesis by (simp add: transaction_def)
qed

lemma initial_label: "claim_button_label initial_view = Inr ''Claim NFT (0 ETH)''"
  by code_simp

lemma connected_label:
  "claim_button_label
     (initial_view\<lparr>quantity := Fin 3, account := Some \<lparr>address = ''0xA1''\<rparr>,
        claimCondition := Some \<lparr>pricePerToken = Some (10 ^ 18)\<rparr>\<rparr>)
   = Inr ''Claim NFT (3 ETH)''"
  by code_simp

text \<open>
  Claim C3.  In every view that renders its claim button, the claim action submits
  exactly one mint transaction, the one that the \<open>transaction\<close> function of the
  button returns: a \<open>claimTo\<close> on the drop contract whose quantity argument equals the
  current quantity state and whose recipient argument is the address of the
  connected account when an account is connected, and the empty string when no
  account is connected.
\<close>

theorem claim_submits_one_transaction:
  assumes "claim_button_label v = Inr button_text"
  shows "\<exists>n. quantity v = Fin n \<and>
     transaction v =
       Inr \<lparr>contract = contract_address,
            to = (case account v of None \<Rightarrow> [] | Some a \<Rightarrow> address a),
            tx_quantity = n\<rparr>"
proof -
  from assms obtain price where "getPrice (claimCondition v) (quantity v) = Inr price"
    by (cases "getPrice (claimCondition v) (quantity v)") (simp_all add: claim_button_label_def)
  then obtain n where n: "quantity v = Fin n"
    using getPrice_returns_on_integer by blast
  then show ?thesis using transaction_integer by blast
qed

theorem claim_submits_one_transaction_witness:
  "claim_button_label initial_view = Inr ''Claim NFT (0 ETH)'' \<and>
   transaction initial_view = Inr \<lparr>contract = contract_address, to = [], tx_quantity = 1\<rparr> \<and>
   claim_button_label
     (initial_view\<lparr>quantity := Fin 3, account := Some \<lparr>address = ''0xA1''\<rparr>,
        claimCondition := Some \<lparr>pricePerToken = Some (10 ^ 18)\<rparr>\<rparr>)
     = Inr ''Claim NFT (3 ETH)'' \<and>
   transaction
     (initial_view\<lparr>quantity := Fin 3, account := Some \<lparr>address = ''0xA1''\<rparr>,
        claimCondition := Some \<lparr>pricePerToken = Some (10 ^ 18)\<rparr>\<rparr>)
     = Inr \<lparr>contract = contract_address, to = ''0xA1'', tx_quantity = 3\<rparr>"
proof -
  have "transaction initial_view
      = Inr \<lparr>contract = contract_address, to = [], tx_quantity = 1\<rparr>"
    using claim_submits_one_transaction [OF initial_label]
    by (auto simp: initial_view_def)
  moreover have "transaction
     (initial_view\<lparr>quantity := Fin 3, account := Some \<lparr>address = ''0xA1''\<rparr>,
        claimCondition := Some \<lparr>pricePerToken = Some (10 ^ 18)\<rparr>\<rparr>)
     = Inr \<lparr>contract = contract_address, to = ''0xA1'', tx_quantity = 3\<rparr>"
    using claim_submits_one_transaction [OF connected_label]
    by (auto simp: initial_view_def)
  ultimately show ?thesis using initial_label connected_label by (simp only: simp_thms)
qed

text \<open>
  Claim C6.  Whatever the view is when the claim confirms, the confirmation handler
  calls \<open>alert\<close> once, with the success message, sets the quantity to 1, and changes
  nothing else.
\<close>

theorem confirmation_resets_quantity:
  "onTransactionConfirmed v
     = v\<lparr>quantity := Fin 1, alerts := alerts v @ [Message ''NFT Claimed!'']\<rparr> \<and>
   quantity (onTransactionConfirmed v) = Fin 1 \<and>
   alerts (onTransactionConfirmed v) = alerts v @ [Message ''NFT Claimed!''] \<and>
   count_list (alerts (onTransactionConfirmed v)) (Message ''NFT Claimed!'')
     = count_list (alerts v) (Message ''NFT Claimed!'') + 1"
  by (simp add: onTransactionConfirmed_def setQuantity_def alert_def)

text \<open>
  Claim C7.  For every error \<open>e\<close>, the error handler calls \<open>alert\<close> once, with \<open>e\<close>
  itself, and changes nothing else: the quantity stays, and no message is alerted,
  the success message in particular.
\<close>

theorem error_keeps_quantity:
  "onError e v = v\<lparr>alerts := alerts v @ [Thrown e]\<rparr> \<and>
   quantity (onError e v) = quantity v \<and>
   alerts (onError e v) = alerts v @ [Thrown e] \<and>
   count_list (alerts (onError e v)) (Message m) = count_list (alerts v) (Message m)"
  by (simp add: onError_def alert_def)

section \<open>\<open>parseInt\<close> on the text of an integer\<close>

text \<open>
  The decimal digits, their values, and the characters \<open>parseInt\<close> treats specially,
  by evaluation.
\<close>

lemma digit_char_table:
  "digit_char 0 = CHR ''0''" "digit_char 1 = CHR ''1''" "digit_char 2 = CHR ''2''"
  "digit_char 3 = CHR ''3''" "digit_char 4 = CHR ''4''" "digit_char 5 = CHR ''5''"
  "digit_char 6 = CHR ''6''" "digit_char 7 = CHR ''7''" "digit_char 8 = CHR ''8''"
  "digit_char 9 = CHR ''9''"
  by code_simp+

lemma digit_cases:
  assumes "0 \<le> d" "d < 10"
  shows "d = 0 \<or> d = 1 \<or> d = 2 \<or> d = 3 \<or> d = 4 \<or> d = 5 \<or> d = 6 \<or> d = 7 \<or> d = 8 \<or> d = (9::int)"
  using assms by arith

lemma digit_value_table:
  "digit_value CHR ''0'' = Some 0" "digit_value CHR ''1'' = Some 1" "digit_value CHR ''2'' = Some 2"
  "digit_value CHR ''3'' = Some 3" "digit_value CHR ''4'' = Some 4" "digit_value CHR ''5'' = Some 5"
  "digit_value CHR ''6'' = Some 6" "digit_value CHR ''7'' = Some 7" "digit_value CHR ''8'' = Some 8"
  "digit_value CHR ''9'' = Some 9"
  by code_simp+

lemma white_table:
  "\<not> is_white CHR ''0''" "\<not> is_white CHR ''1''" "\<not> is_white CHR ''2''"
  "\<not> is_white CHR ''3''" "\<not> is_white CHR ''4''" "\<not> is_white CHR ''5''"
  "\<not> is_white CHR ''6''" "\<not> is_white CHR ''7''" "\<not> is_white CHR ''8''"
  "\<not> is_white CHR ''9''" "\<not> is_white CHR ''-''"
  by code_simp+

lemma digit_char_value: "0 \<le> d \<Longrightarrow> d < 10 \<Longrightarrow> digit_value (digit_char d) = Some (nat d)"
  using digit_cases [of d] by (auto simp: digit_char_table digit_value_table)

lemma digit_char_decimal: "0 \<le> d \<Longrightarrow> d < 10 \<Longrightarrow> digit_char d \<in> set ''0123456789''"
  using digit_cases [of d] by (auto simp: digit_char_table)

lemma digits_of_decimal: "0 \<le> n \<Longrightarrow> set (digits_of n) \<subseteq> set ''0123456789''"
proof (induction n rule: digits_of.induct)
  case (1 n)
  show ?case
  proof (cases "n < 10")
    case True
    with "1.prems" show ?thesis
      using digit_char_decimal [of n] by (simp add: digits_of.simps [of n])
  next
    case False
    with "1.prems" have "set (digits_of (n div 10)) \<subseteq> set ''0123456789''"
      by (intro "1.IH") simp_all
    moreover have "digit_char (n mod 10) \<in> set ''0123456789''"
      by (rule digit_char_decimal) simp_all
    ultimately show ?thesis using False by (simp add: digits_of.simps [of n])
  qed
qed

lemma digits_of_nonempty: "digits_of n \<noteq> []"
  by (simp add: digits_of.simps [of n])

lemma radix_value_snoc:
  "radix_value R (Z @ [c])
     = radix_value R Z * int R + (case digit_value c of None \<Rightarrow> 0 | Some d \<Rightarrow> int d)"
  by (simp add: radix_value_def)

lemma radix_value_digits_of: "0 \<le> n \<Longrightarrow> radix_value 10 (digits_of n) = n"
proof (induction n rule: digits_of.induct)
  case (1 n)
  show ?case
  proof (cases "n < 10")
    case True
    with "1.prems" show ?thesis
      using radix_value_snoc [of 10 "[]" "digit_char n"]
      by (simp add: digits_of.simps [of n] digit_char_value radix_value_def)
  next
    case False
    with "1.prems" have "radix_value 10 (digits_of (n div 10)) = n div 10"
      by (intro "1.IH") simp_all
    moreover have "digit_value (digit_char (n mod 10)) = Some (nat (n mod 10))"
      by (rule digit_char_value) simp_all
    ultimately show ?thesis
      using False by (simp add: digits_of.simps [of n] radix_value_snoc)
  qed
qed

lemma decimal_char_facts:
  assumes "c \<in> set ''0123456789''"
  shows "is_radix_digit 10 c" "\<not> is_white c" "c \<noteq> CHR ''-''" "c \<noteq> CHR ''+''"
    "c \<noteq> CHR ''x''" "c \<noteq> CHR ''X''"
  using assms by (auto simp: is_radix_digit_def digit_value_table white_table)

lemma parseInt_decimal:
  assumes "Z \<noteq> []" and "set Z \<subseteq> set ''0123456789''"
  shows "parseInt Z = toNumber (radix_value 10 Z)"
    and "parseInt (CHR ''-'' # Z) = toNumber (- radix_value 10 Z)"
proof -
  from assms(1) obtain c cs where Z: "Z = c # cs" by (cases Z) auto
  with assms(2) have c: "c \<in> set ''0123456789''" by auto
  have all: "takeWhile (is_radix_digit 10) Z = Z"
    using assms(2) decimal_char_facts(1) by (intro takeWhile_eq_all_conv [THEN iffD2]) blast
  have "take 2 Z \<noteq> ''0x'' \<and> take 2 Z \<noteq> ''0X''"
  proof (cases cs)
    case Nil
    with Z show ?thesis by simp
  next
    case (Cons c' cs')
    with Z assms(2) have "c' \<in> set ''0123456789''" by auto
    then have "c' \<noteq> CHR ''x''" "c' \<noteq> CHR ''X''" by (rule decimal_char_facts)+
    with Z Cons show ?thesis by (simp add: numeral_2_eq_2)
  qed
  then have nohex: "(take 2 Z = ''0x'') = False" "(take 2 Z = ''0X'') = False" by simp_all
  have first: "dropWhile is_white Z = Z" "(take 1 Z = ''-'') = False" "(take 1 Z = ''+'') = False"
    using Z decimal_char_facts [OF c] by simp_all
  have "parseInt Z = (if Z = [] then NaN else toNumber (1 * radix_value 10 Z))"
    by (simp only: parseInt_def Let_def first nohex all simp_thms if_False)
  with assms(1) show "parseInt Z = toNumber (radix_value 10 Z)" by simp
  have minus: "dropWhile is_white (CHR ''-'' # Z) = CHR ''-'' # Z"
    "take 1 (CHR ''-'' # Z) = ''-''" "drop 1 (CHR ''-'' # Z) = Z"
    by (simp_all add: white_table)
  have "parseInt (CHR ''-'' # Z) = (if Z = [] then NaN else toNumber (- 1 * radix_value 10 Z))"
    by (simp only: parseInt_def Let_def minus nohex all simp_thms if_True if_False)
  with assms(1) show "parseInt (CHR ''-'' # Z) = toNumber (- radix_value 10 Z)" by simp
qed

lemma parseInt_bigint_toString: "parseInt (bigint_toString x) = toNumber x"
proof (cases "x < 0")
  case True
  then have "radix_value 10 (digits_of (- x)) = - x" by (simp add: radix_value_digits_of)
  moreover have "set (digits_of (- x)) \<subseteq> set ''0123456789''"
    using True by (intro digits_of_decimal) simp
  ultimately show ?thesis
    using True parseInt_decimal(2) [OF digits_of_nonempty, of "- x"]
    by (simp add: bigint_toString_def)
next
  case False
  then have "radix_value 10 (digits_of x) = x" by (simp add: radix_value_digits_of)
  moreover have "set (digits_of x) \<subseteq> set ''0123456789''"
    using False by (intro digits_of_decimal) simp
  ultimately show ?thesis
    using False parseInt_decimal(1) [OF digits_of_nonempty, of x]
    by (simp add: bigint_toString_def)
qed

lemma parseInt_not_a_number:
  assumes "\<not> is_white c" "c \<noteq> CHR ''+''" "c \<noteq> CHR ''-''" "\<not> is_radix_digit 10 c"
  shows "parseInt (c # cs) = NaN"
proof -
  have "is_radix_digit 10 CHR ''0''" by code_simp
  with assms(4) have "c \<noteq> CHR ''0''" by auto
  then have nohex: "(take 2 (c # cs) = ''0x'') = False" "(take 2 (c # cs) = ''0X'') = False"
    by (simp_all add: numeral_2_eq_2)
  have first: "dropWhile is_white (c # cs) = c # cs" "(take 1 (c # cs) = ''-'') = False"
    "(take 1 (c # cs) = ''+'') = False" "takeWhile (is_radix_digit 10) (c # cs) = []"
    using assms by simp_all
  show ?thesis
    by (simp only: parseInt_def Let_def first nohex simp_thms if_True if_False)
qed

section \<open>The manual quantity input\<close>

text \<open>
  What \<open>parseInt\<close> makes of a string: leading white space does not count; a sign
  that no digit follows gives \<open>NaN\<close>; a decimal numeral gives its Number value,
  whatever follows the numeral.
\<close>

lemma parseInt_white_prefix:
  assumes "list_all is_white ws"
  shows "parseInt (ws @ s) = parseInt s"
proof -
  from assms have "dropWhile is_white (ws @ s) = dropWhile is_white s"
    by (intro dropWhile_append2) (simp add: list_all_iff)
  then show ?thesis by (simp only: parseInt_def)
qed

lemma plus_is_not_white: "\<not> is_white CHR ''+''"
  by code_simp

lemma zero_is_digit: "is_radix_digit 10 CHR ''0''"
  by code_simp

lemma no_digit_no_hex:
  assumes "takeWhile (is_radix_digit 10) rest = []"
  shows "(take 2 rest = ''0x'') = False" "(take 2 rest = ''0X'') = False"
proof -
  have "take 2 rest \<noteq> ''0x'' \<and> take 2 rest \<noteq> ''0X''"
  proof (cases rest)
    case Nil
    then show ?thesis by simp
  next
    case (Cons c cs)
    with assms have "\<not> is_radix_digit 10 c" by (simp split: if_splits)
    with zero_is_digit have "c \<noteq> CHR ''0''" by auto
    with Cons show ?thesis by (simp add: numeral_2_eq_2)
  qed
  then show "(take 2 rest = ''0x'') = False" "(take 2 rest = ''0X'') = False" by simp_all
qed

lemma parseInt_sign_no_digit:
  assumes "sg = CHR ''+'' \<or> sg = CHR ''-''"
    and "takeWhile (is_radix_digit 10) rest = []"
  shows "parseInt (sg # rest) = NaN"
proof -
  from assms(1) have w: "\<not> is_white sg" using plus_is_not_white white_table(11) by auto
  then have first: "dropWhile is_white (sg # rest) = sg # rest" by simp
  from assms(1) have sign: "(take 1 (sg # rest) = ''+'' \<or> take 1 (sg # rest) = ''-'') = True"
    "drop 1 (sg # rest) = rest" by auto
  show ?thesis
    by (simp only: parseInt_def Let_def first sign no_digit_no_hex [OF assms(2)] assms(2)
        simp_thms if_True if_False)
qed

lemma parseInt_numeral_prefix:
  assumes "Z \<noteq> []" and "set Z \<subseteq> set ''0123456789''"
    and "takeWhile (is_radix_digit 10) tail = []"
    and "take 2 (Z @ tail) \<noteq> ''0x''" and "take 2 (Z @ tail) \<noteq> ''0X''"
  shows "parseInt (Z @ tail) = toNumber (radix_value 10 Z)"
    and "parseInt (CHR ''-'' # Z @ tail) = toNumber (- radix_value 10 Z)"
proof -
  from assms(1) obtain c cs where Z: "Z = c # cs" by (cases Z) auto
  with assms(2) have c: "c \<in> set ''0123456789''" by auto
  have "takeWhile (is_radix_digit 10) (Z @ tail) = Z @ takeWhile (is_radix_digit 10) tail"
    using assms(2) decimal_char_facts(1) by (intro takeWhile_append2) blast
  with assms(3) have all: "takeWhile (is_radix_digit 10) (Z @ tail) = Z" by simp
  from assms(4,5) have nohex: "(take 2 (Z @ tail) = ''0x'') = False"
    "(take 2 (Z @ tail) = ''0X'') = False" by simp_all
  have first: "dropWhile is_white (Z @ tail) = Z @ tail"
    "(take 1 (Z @ tail) = ''-'') = False" "(take 1 (Z @ tail) = ''+'') = False"
    using Z decimal_char_facts [OF c] by simp_all
  have "parseInt (Z @ tail) = (if Z = [] then NaN else toNumber (1 * radix_value 10 Z))"
    by (simp only: parseInt_def Let_def first nohex all simp_thms if_False)
  with assms(1) show "parseInt (Z @ tail) = toNumber (radix_value 10 Z)" by simp
  have minus: "dropWhile is_white (CHR ''-'' # Z @ tail) = CHR ''-'' # Z @ tail"
    "take 1 (CHR ''-'' # Z @ tail) = ''-''" "drop 1 (CHR ''-'' # Z @ tail) = Z @ tail"
    by (simp_all add: white_table)
  have "parseInt (CHR ''-'' # Z @ tail)
      = (if Z = [] then NaN else toNumber (- 1 * radix_value 10 Z))"
    by (simp only: parseInt_def Let_def minus nohex all simp_thms if_True if_False)
  with assms(1) show "parseInt (CHR ''-'' # Z @ tail) = toNumber (- radix_value 10 Z)" by simp
qed

lemma manual_entry_examples:
  "list_all is_white '' ''"
  "\<not> is_white CHR ''a''" "\<not> is_radix_digit 10 CHR ''a''"
  "takeWhile (is_radix_digit 10) ''abc'' = []"
  "takeWhile (is_radix_digit 10) ''px'' = []"
  "radix_value 10 ''12'' = 12"
  "bigint_toString (- 5) = ''-5''"
  by code_simp+

text \<open>
  Claim C8, as amended.  For every string \<open>s\<close> that the manual input delivers, the
  quantity becomes \<open>parseInt s\<close> and nothing else changes; nothing is validated or
  clamped.  Leading white space is skipped.  The result is \<open>NaN\<close> when no digit
  follows the white space and an optional sign: for the empty string, for a first
  character that is neither white space, a sign nor a decimal digit, and for a sign
  with no decimal digit behind it.  A string that starts with a decimal numeral
  (not the prefix \<open>0x\<close> or \<open>0X\<close>), with or without a minus sign, gives the Number
  value of that numeral, whatever follows it.  The decimal text of an integer \<open>n\<close>
  gives the Number value of \<open>n\<close>, which is \<open>n\<close> itself when \<open>\<bar>n\<bar> \<le> 2 ^ 53\<close>: a
  negative numeral in that range gives that negative quantity, below the minimum 1
  of the decrement, and a numeral above the remaining supply gives that quantity,
  whatever the supply counters of the view are.
\<close>

theorem manual_entry_stores_parseInt:
  "input_onChange s v = v\<lparr>quantity := parseInt s\<rparr> \<and>
   (list_all is_white ws \<longrightarrow> parseInt (ws @ s) = parseInt s) \<and>
   parseInt [] = NaN \<and>
   (\<not> is_white c \<and> c \<noteq> CHR ''+'' \<and> c \<noteq> CHR ''-'' \<and> \<not> is_radix_digit 10 c \<longrightarrow>
      parseInt (c # cs) = NaN) \<and>
   ((sg = CHR ''+'' \<or> sg = CHR ''-'') \<and> takeWhile (is_radix_digit 10) rest = [] \<longrightarrow>
      parseInt (sg # rest) = NaN) \<and>
   (Z \<noteq> [] \<and> set Z \<subseteq> set ''0123456789'' \<and> takeWhile (is_radix_digit 10) tail = [] \<and>
    take 2 (Z @ tail) \<noteq> ''0x'' \<and> take 2 (Z @ tail) \<noteq> ''0X'' \<longrightarrow>
      parseInt (Z @ tail) = toNumber (radix_value 10 Z) \<and>
      parseInt (CHR ''-'' # Z @ tail) = toNumber (- radix_value 10 Z)) \<and>
   quantity (input_onChange (bigint_toString n) v) = toNumber n \<and>
   (\<bar>n\<bar> \<le> 2 ^ 53 \<longrightarrow> quantity (input_onChange (bigint_toString n) v) = Fin n)"
proof (intro conjI impI)
  show "input_onChange s v = v\<lparr>quantity := parseInt s\<rparr>"
    by (simp add: input_onChange_def setQuantity_def)
  show "parseInt [] = NaN" by code_simp
  show "quantity (input_onChange (bigint_toString n) v) = toNumber n"
    by (simp add: input_onChange_def setQuantity_def parseInt_bigint_toString)
next
  assume "list_all is_white ws"
  then show "parseInt (ws @ s) = parseInt s" by (rule parseInt_white_prefix)
next
  assume "\<not> is_white c \<and> c \<noteq> CHR ''+'' \<and> c \<noteq> CHR ''-'' \<and> \<not> is_radix_digit 10 c"
  then show "parseInt (c # cs) = NaN" by (simp add: parseInt_not_a_number)
next
  assume "(sg = CHR ''+'' \<or> sg = CHR ''-'') \<and> takeWhile (is_radix_digit 10) rest = []"
  then show "parseInt (sg # rest) = NaN" by (intro parseInt_sign_no_digit) simp_all
next
  assume a: "Z \<noteq> [] \<and> set Z \<subseteq> set ''0123456789'' \<and> takeWhile (is_radix_digit 10) tail = [] \<and>
    take 2 (Z @ tail) \<noteq> ''0x'' \<and> take 2 (Z @ tail) \<noteq> ''0X''"
  then show "parseInt (Z @ tail) = toNumber (radix_value 10 Z)"
    by (intro parseInt_numeral_prefix) simp_all
  from a show "parseInt (CHR ''-'' # Z @ tail) = toNumber (- radix_value 10 Z)"
    by (intro parseInt_numeral_prefix) simp_all
next
  assume "\<bar>n\<bar> \<le> 2 ^ 53"
  then show "quantity (input_onChange (bigint_toString n) v) = Fin n"
    by (simp add: input_onChange_def setQuantity_def parseInt_bigint_toString toNumber_exact)
qed

theorem manual_entry_stores_parseInt_witness:
  "list_all is_white '' '' \<and> parseInt '' abc'' = parseInt ''abc'' \<and>
   \<not> is_white CHR ''a'' \<and> \<not> is_radix_digit 10 CHR ''a'' \<and> parseInt ''abc'' = NaN \<and>
   takeWhile (is_radix_digit 10) ''abc'' = [] \<and> parseInt ''-abc'' = NaN \<and>
   takeWhile (is_radix_digit 10) ''px'' = [] \<and>
   parseInt ''12px'' = Fin 12 \<and> parseInt ''-12px'' = Fin (- 12) \<and>
   \<bar>- 5 :: int\<bar> \<le> 2 ^ 53 \<and> quantity (input_onChange ''-5'' initial_view) = Fin (- 5)"
  using manual_entry_stores_parseInt
      [of "''abc''" initial_view "'' ''" "CHR ''a''" "''bc''" "CHR ''-''" "''abc''"
        "''12''" "''px''" "- 5"]
    manual_entry_examples
  by (simp add: toNumber_exact)

text \<open>
  Claim C8 as stated fails twice.  The string \<open>12px\<close> is not a numeral and gives 12,
  not \<open>NaN\<close>.  The negative numeral \<open>-9007199254740993\<close> gives
  \<open>-9007199254740992\<close>, not that negative value: it is not a double and is
  rounded.
\<close>

theorem manual_entry_counterexample:
  "quantity (input_onChange ''12px'' initial_view) = Fin 12 \<and>
   quantity (input_onChange ''-9007199254740993'' initial_view) = Fin (- 9007199254740992) \<and>
   Fin (- 9007199254740992) \<noteq> Fin (- 9007199254740993)"
  by code_simp

section \<open>The price\<close>

lemma toEther_zero: "toEther 0 = ''0''"
  by code_simp

lemma parseInt_zero_text: "parseInt ''0'' = Fin 0"
  by code_simp

text \<open>
  With a loaded price \<open>p\<close>, the factor that \<open>getPrice\<close> multiplies the quantity
  with is the Number value of \<open>p\<close>: the text of \<open>p\<close> is parsed back.
\<close>

lemma price_text_loaded:
  assumes "pricePerToken c = Some p"
  shows "parseInt (price_text (Some c)) = toNumber p"
proof -
  have "bigint_toString p \<noteq> []"
    by (simp add: bigint_toString_def digits_of_nonempty)
  with assms have "price_text (Some c) = bigint_toString p"
    by (simp add: price_text_def Let_def)
  then show ?thesis by (simp add: parseInt_bigint_toString)
qed

lemma unit_price_doubles: "is_double (10 ^ 18)" "is_double (3 * 10 ^ 18)"
  by code_simp+

lemma three_units_text: "toEther (3 * 10 ^ 18) = ''3''"
  by code_simp

text \<open>
  Claim C1, as amended.  For every quantity \<open>q \<ge> 1\<close> and every loaded claim
  condition with unit price \<open>p \<ge> 0\<close> such that \<open>p\<close> and \<open>q * p\<close> are doubles, the
  total that \<open>getPrice\<close> computes is the exact product \<open>q * p\<close>, and \<open>getPrice\<close>
  returns its base-currency text.  Three tokens at \<open>10 ^ 18\<close> each are displayed
  as "3".
\<close>

theorem getPrice_exact_when_representable:
  assumes "1 \<le> q" and "0 \<le> p" and "pricePerToken c = Some p"
    and "is_double p" and "is_double (q * p)"
  shows "js_mul (Fin q) (parseInt (price_text (Some c))) = Fin (q * p) \<and>
         getPrice (Some c) (Fin q) = Inr (toEther (q * p))"
proof -
  from assms(3,4) have "parseInt (price_text (Some c)) = Fin p"
    by (simp add: price_text_loaded is_double_def)
  with assms(5) have "js_mul (Fin q) (parseInt (price_text (Some c))) = Fin (q * p)"
    by (simp add: is_double_def)
  then show ?thesis by (simp add: getPrice_def)
qed

theorem getPrice_exact_when_representable_witness:
  "(1::int) \<le> 3 \<and> (0::int) \<le> 10 ^ 18 \<and>
   pricePerToken \<lparr>pricePerToken = Some (10 ^ 18)\<rparr> = Some (10 ^ 18) \<and>
   is_double (10 ^ 18) \<and> is_double (3 * 10 ^ 18) \<and>
   js_mul (Fin 3) (parseInt (price_text (Some \<lparr>pricePerToken = Some (10 ^ 18)\<rparr>)))
     = Fin (3 * 10 ^ 18) \<and>
   getPrice (Some \<lparr>pricePerToken = Some (10 ^ 18)\<rparr>) (Fin 3) = Inr ''3''"
  using getPrice_exact_when_representable [of 3 "10 ^ 18" "\<lparr>pricePerToken = Some (10 ^ 18)\<rparr>"]
    unit_price_doubles three_units_text
  by simp

text \<open>
  Claim C1 as stated fails at a price that is not a double.  At the unit price
  \<open>1000000000000000001\<close> (\<open>10 ^ 18 + 1\<close>) and quantity 1, \<open>parseInt\<close> rounds the
  price to \<open>10 ^ 18\<close> and \<open>getPrice\<close> returns "1", while the text of the exact
  product is "1.000000000000000001".
\<close>

theorem getPrice_counterexample:
  "getPrice (Some \<lparr>pricePerToken = Some 1000000000000000001\<rparr>) (Fin 1) = Inr ''1'' \<and>
   toEther (1 * 1000000000000000001) = ''1.000000000000000001''"
  by code_simp

text \<open>
  Claim C2, as amended.  For every integer quantity \<open>q\<close>, when the claim condition is
  absent, or present without its price, \<open>getPrice\<close> takes the price to be zero, so
  that the total is zero, and returns "0".
\<close>

theorem getPrice_zero_when_not_loaded:
  "js_mul (Fin q) (parseInt (price_text None)) = Fin 0 \<and>
   getPrice None (Fin q) = Inr ''0'' \<and>
   (pricePerToken c = None \<longrightarrow>
      js_mul (Fin q) (parseInt (price_text (Some c))) = Fin 0 \<and>
      getPrice (Some c) (Fin q) = Inr ''0'')"
proof -
  have "toNumber 0 = Fin 0" by (simp add: toNumber_exact)
  then have total: "js_mul (Fin q) (parseInt ''0'') = Fin 0"
    by (simp add: parseInt_zero_text)
  have price: "getPrice cc (Fin q) = Inr ''0''" if "price_text cc = ''0''" for cc
    using that total by (simp add: getPrice_def toEther_zero)
  have absent: "price_text None = ''0''"
    by (simp add: price_text_def)
  have no_price: "price_text (Some c) = ''0''" if "pricePerToken c = None"
    using that by (simp add: price_text_def)
  show ?thesis
  proof (intro conjI impI)
    show "js_mul (Fin q) (parseInt (price_text None)) = Fin 0"
      by (simp only: absent total)
    show "getPrice None (Fin q) = Inr ''0''"
      using absent by (rule price)
    assume c: "pricePerToken c = None"
    show "js_mul (Fin q) (parseInt (price_text (Some c))) = Fin 0"
      by (simp only: no_price [OF c] total)
    show "getPrice (Some c) (Fin q) = Inr ''0''"
      using no_price [OF c] by (rule price)
  qed
qed

theorem getPrice_zero_when_not_loaded_witness:
  "getPrice None (Fin 7) = Inr ''0'' \<and>
   pricePerToken \<lparr>pricePerToken = None\<rparr> = None \<and>
   getPrice (Some \<lparr>pricePerToken = None\<rparr>) (Fin 7) = Inr ''0''"
  using getPrice_zero_when_not_loaded [of 7 "\<lparr>pricePerToken = None\<rparr>"]
  by simp

text \<open>
  Claim C2 as stated fails at the quantity \<open>NaN\<close>, which the view has after the
  manual input is cleared: with no claim condition loaded, \<open>getPrice\<close> throws instead
  of returning "0".
\<close>

theorem getPrice_not_loaded_counterexample:
  "claimCondition initial_view = None \<and>
   quantity (input_onChange [] initial_view) = NaN \<and>
   getPrice (claimCondition initial_view) (quantity (input_onChange [] initial_view))
     = Inl RangeError"
  by code_simp

text \<open>
  Claim C10.  Clearing the manual input sets the quantity to \<open>NaN\<close>, \<open>parseInt\<close> of the
  empty string, and at that quantity \<open>getPrice\<close> returns no price, whatever the
  claim condition: \<open>BigInt\<close> throws a \<open>RangeError\<close>.
\<close>

theorem getPrice_throws_on_cleared_input:
  "quantity (input_onChange [] v) = NaN \<and>
   getPrice cc (quantity (input_onChange [] v)) = Inl RangeError"
proof -
  have "parseInt [] = NaN" by code_simp
  then show ?thesis by (simp add: input_onChange_def setQuantity_def getPrice_def)
qed

end
